theory Spec2Isabelle
  imports Main
begin

section \<open>Strings of the host language\<close>

text \<open>
  A string is a list of code units. The model covers code units below 256, where
  \<open>String.prototype.trim\<close> removes TAB, LF, VT, FF, CR, SPACE and NBSP from both ends and
  \<open>String.prototype.toLowerCase\<close> moves A..Z and the Latin-1 capitals (all of
  0xC0..0xDE but the multiplication sign 0xD7) up by 32.
\<close>

definition isWhiteSpace :: "char \<Rightarrow> bool" where
  "isWhiteSpace c = (of_char c \<in> {9, 10, 11, 12, 13, 32, 160 :: nat})"

definition trim :: "string \<Rightarrow> string" where
  "trim s = rev (dropWhile isWhiteSpace (rev (dropWhile isWhiteSpace s)))"

definition lowerChar :: "char \<Rightarrow> char" where
  "lowerChar c =
     (let n = (of_char c :: nat)
      in if (65 \<le> n \<and> n \<le> 90) \<or> (192 \<le> n \<and> n \<le> 222 \<and> n \<noteq> 215)
         then char_of (n + 32) else c)"

definition toLowerCase :: "string \<Rightarrow> string" where
  "toLowerCase s = map lowerChar s"

definition startsWith :: "string \<Rightarrow> string \<Rightarrow> bool" where
  "startsWith s p = (take (length p) s = p)"

section \<open>Data model\<close>

text \<open>\<open>File\<close>: the name, the size in bytes, the MIME type and the content, as a text.\<close>

record jsfile =
  file_name :: string
  file_size :: nat
  file_type :: string
  file_data :: string

text \<open>
  \<open>Preset\<close> and \<open>HistoryItem\<close> of App.tsx. An input image is what \<open>fileToDataUrl\<close>
  resolved to, which is \<open>reader.result as string\<close>: a text, or \<open>null\<close> (\<open>None\<close>).
\<close>

record preset =
  title :: string
  prompt :: string

datatype history_type = Vision | Generate | Edit

record history_item =
  hist_id :: string
  hist_type :: history_type
  timestamp :: int
  hist_prompt :: string
  inputImages :: "string option list option"
  outputImages :: "string list option"
  outputText :: "string option"

text \<open>\<open>UploadedImage\<close> and \<open>EditResult\<close> of EditTab.tsx.\<close>

record uploaded_image =
  image_id :: string
  image_file :: jsfile
  image_url :: string

record edit_result =
  originalUrl :: string
  editedUrls :: "string list"
  selectedEditedUrl :: "string option"
  result_error :: "string option"

text \<open>
  The response of \<open>ai.models.generateContent\<close>, as far as the code reads it. Every
  field the code reaches through \<open>?.\<close> or tests for truth is optional.
\<close>

record blob =
  blob_data :: "string option"
  blob_mimeType :: "string option"

record part =
  inlineData :: "blob option"

record content =
  parts :: "part list option"

record candidate =
  cand_content :: "content option"

record response =
  candidates :: "candidate list option"
  response_text :: "string option"

datatype remote_result = RemoteThrows | RemoteResponse response

text \<open>What a \<open>catch\<close> clause receives: an \<open>Error\<close> with its message, or any other value.\<close>

datatype js_exn = Error string | OtherThrown

text \<open>
  The collaborators whose answers the code cannot compute: the \<open>k\<close>-th answer of
  \<open>crypto.randomUUID\<close>, \<open>URL.createObjectURL\<close> and \<open>Date.now\<close>, and, for the item at
  index \<open>i\<close> of a run, the remote service's answer to its request and the
  \<open>reader.result\<close> that \<open>FileReader.readAsDataURL\<close> leaves for its file (\<open>None\<close> is
  \<open>null\<close>).
\<close>

record env =
  randomUUID :: "nat \<Rightarrow> string"
  createObjectURL :: "nat \<Rightarrow> jsfile \<Rightarrow> string"
  dateNow :: "nat \<Rightarrow> int"
  generateContent :: "nat \<Rightarrow> string \<Rightarrow> jsfile \<Rightarrow> remote_result"
  readAsDataURL :: "nat \<Rightarrow> jsfile \<Rightarrow> string option"

text \<open>
  One remote request as the run issues it, with the published result collection
  (\<open>editResults\<close>) and the run's local collection (\<open>newResults\<close>) at that moment.
\<close>

record remote_call =
  call_prompt :: string
  call_file :: jsfile
  call_progress :: string
  call_published :: "(string \<times> edit_result) list"
  call_local :: "(string \<times> edit_result) list"

text \<open>
  The state of \<open>App\<close>, \<open>EditTab\<close> and \<open>PresetTab\<close>. A \<open>Map\<close> keeps its keys in
  insertion order, so it is an association list. The last four fields are not state of
  the program: \<open>fresh\<close> counts the answers drawn from the collaborators, \<open>revoked\<close> lists
  the calls of \<open>URL.revokeObjectURL\<close>, \<open>alerts\<close> the calls of \<open>alert\<close> and
  \<open>remoteCalls\<close> the requests sent to the remote service, each in order.
\<close>

record studio =
  presets :: "preset list"
  history :: "history_item list"
  editPrompt :: string
  uploadedImages :: "uploaded_image list"
  selectedImageIds :: "string set"
  editResults :: "(string \<times> edit_result) list"
  loading :: bool
  progressMessage :: string
  edit_error :: string
  newPreset :: preset
  presetError :: string
  fresh :: nat
  revoked :: "string list"
  alerts :: "string list"
  remoteCalls :: "remote_call list"

section \<open>Item registry (EditTab.tsx)\<close>

text \<open>
  \<open>useEffect(() => () => uploadedImages.forEach(img => URL.revokeObjectURL(img.url)),
  [uploadedImages])\<close>: the cleanup closes over the list of the render that installed it.
\<close>

definition effectCleanup :: "uploaded_image list \<Rightarrow> studio \<Rightarrow> studio" where
  "effectCleanup imgs st = st\<lparr>revoked := revoked st @ map image_url imgs\<rparr>"

text \<open>
  \<open>setUploadedImages\<close> with a new array: the dependency of the effect changes, so the
  cleanup of the previous render runs on the previous list.
\<close>

definition setUploadedImages :: "uploaded_image list \<Rightarrow> studio \<Rightarrow> studio" where
  "setUploadedImages imgs st = effectCleanup (uploadedImages st) (st\<lparr>uploadedImages := imgs\<rparr>)"

text \<open>Unmounting the component runs the cleanup of the last render.\<close>

definition unmount :: "studio \<Rightarrow> studio" where
  "unmount st = effectCleanup (uploadedImages st) st"

text \<open>The \<open>.map(file => ({id: crypto.randomUUID(), file, url: URL.createObjectURL(file)}))\<close>.\<close>

fun mkImages :: "env \<Rightarrow> nat \<Rightarrow> jsfile list \<Rightarrow> uploaded_image list" where
  "mkImages e k [] = []"
| "mkImages e k (f # fs) =
     \<lparr>image_id = randomUUID e k, image_file = f, image_url = createObjectURL e k f\<rparr>
       # mkImages e (Suc k) fs"

definition handleImagesChange :: "env \<Rightarrow> jsfile list \<Rightarrow> studio \<Rightarrow> studio" where
  "handleImagesChange e files st =
     (let kept = filter (\<lambda>f. \<not> list_ex (\<lambda>img. file_name (image_file img) = file_name f
                                           \<and> file_size (image_file img) = file_size f)
                                    (uploadedImages st)) files;
          newImages = mkImages e (fresh st) kept;
          st1 = st\<lparr>fresh := fresh st + length kept\<rparr>
      in if length newImages > 0
         then setUploadedImages (uploadedImages st1 @ newImages) st1
         else st1)"

definition handleRemoveImage :: "string \<Rightarrow> studio \<Rightarrow> studio" where
  "handleRemoveImage idToRemove st =
     (let prev = uploadedImages st;
          st1 = (case find (\<lambda>img. image_id img = idToRemove) prev of
                   Some imageToRemove \<Rightarrow> st\<lparr>revoked := revoked st @ [image_url imageToRemove]\<rparr>
                 | None \<Rightarrow> st);
          st2 = setUploadedImages (filter (\<lambda>img. image_id img \<noteq> idToRemove) prev) st1
      in st2\<lparr>selectedImageIds := selectedImageIds st2 - {idToRemove}\<rparr>)"

definition handleClearAllImages :: "studio \<Rightarrow> studio" where
  "handleClearAllImages st =
     (let st1 = st\<lparr>revoked := revoked st @ map image_url (uploadedImages st)\<rparr>;
          st2 = setUploadedImages [] st1
      in st2\<lparr>selectedImageIds := {}\<rparr>)"

definition handleToggleSelection :: "string \<Rightarrow> studio \<Rightarrow> studio" where
  "handleToggleSelection i st =
     (if i \<in> selectedImageIds st
      then st\<lparr>selectedImageIds := selectedImageIds st - {i}\<rparr>
      else st\<lparr>selectedImageIds := insert i (selectedImageIds st)\<rparr>)"

definition handleSelectAll :: "studio \<Rightarrow> studio" where
  "handleSelectAll st = st\<lparr>selectedImageIds := set (map image_id (uploadedImages st))\<rparr>"

definition handleDeselectAll :: "studio \<Rightarrow> studio" where
  "handleDeselectAll st = st\<lparr>selectedImageIds := {}\<rparr>"

text \<open>The user's actions on the registry, and a sequence of them.\<close>

datatype registry_op =
  AddItems "jsfile list" | RemoveItem string | ClearAll
  | ToggleSelection string | SelectAll | DeselectAll

fun apply_op :: "env \<Rightarrow> registry_op \<Rightarrow> studio \<Rightarrow> studio" where
  "apply_op e (AddItems fs) st = handleImagesChange e fs st"
| "apply_op e (RemoveItem i) st = handleRemoveImage i st"
| "apply_op e ClearAll st = handleClearAllImages st"
| "apply_op e (ToggleSelection i) st = handleToggleSelection i st"
| "apply_op e SelectAll st = handleSelectAll st"
| "apply_op e DeselectAll st = handleDeselectAll st"

fun run_ops :: "env \<Rightarrow> registry_op list \<Rightarrow> studio \<Rightarrow> studio" where
  "run_ops e [] st = st"
| "run_ops e (x # xs) st = run_ops e xs (apply_op e x st)"

text \<open>
  The presentation offers the toggle only on the thumbnails of registered items: every
  \<open>ToggleSelection\<close> of the sequence names an item registered at that moment.
\<close>

fun toggles_registered :: "env \<Rightarrow> registry_op list \<Rightarrow> studio \<Rightarrow> bool" where
  "toggles_registered e [] st = True"
| "toggles_registered e (x # xs) st =
     ((case x of ToggleSelection i \<Rightarrow> i \<in> set (map image_id (uploadedImages st)) | _ \<Rightarrow> True)
      \<and> toggles_registered e xs (apply_op e x st))"

text \<open>The state of a freshly mounted application with no presets and no history.\<close>

definition initial_studio :: studio where
  "initial_studio =
     \<lparr>presets = [], history = [], editPrompt = [], uploadedImages = [],
      selectedImageIds = {}, editResults = [], loading = False, progressMessage = [],
      edit_error = [], newPreset = \<lparr>title = [], prompt = []\<rparr>, presetError = [],
      fresh = 0, revoked = [], alerts = [], remoteCalls = []\<rparr>"

section \<open>Remote service (geminiService.ts)\<close>

text \<open>\<open>fileToDataUrl\<close> resolves, on \<open>loadend\<close>, with the \<open>reader.result\<close> of the browser.\<close>

definition fileToDataUrl :: "env \<Rightarrow> nat \<Rightarrow> jsfile \<Rightarrow> string option" where
  "fileToDataUrl e i f = readAsDataURL e i f"

text \<open>
  The two nested \<open>forEach\<close> of \<open>editImageWithText\<close>. \<open>None\<close> is the \<open>TypeError\<close> of
  \<open>part.inlineData.mimeType.startsWith\<close> on an absent MIME type, which leaves both loops;
  an absent \<open>data\<close> is interpolated as the text \<open>undefined\<close>.
\<close>

fun collectParts :: "part list \<Rightarrow> string list option" where
  "collectParts [] = Some []"
| "collectParts (p # ps) =
     (case inlineData p of
        None \<Rightarrow> collectParts ps
      | Some b \<Rightarrow>
          (case blob_mimeType b of
             None \<Rightarrow> None
           | Some mimeType \<Rightarrow>
               if startsWith mimeType ''image/''
               then map_option
                      (\<lambda>images. (''data:'' @ mimeType @ '';base64,''
                                   @ (case blob_data b of None \<Rightarrow> ''undefined'' | Some d \<Rightarrow> d))
                                 # images)
                      (collectParts ps)
               else collectParts ps))"

fun collectCandidates :: "candidate list \<Rightarrow> string list option" where
  "collectCandidates [] = Some []"
| "collectCandidates (c # cs) =
     (case (case cand_content c of
              None \<Rightarrow> Some []
            | Some ct \<Rightarrow> (case parts ct of None \<Rightarrow> Some [] | Some ps \<Rightarrow> collectParts ps)) of
        None \<Rightarrow> None
      | Some images \<Rightarrow> map_option (\<lambda>more. images @ more) (collectCandidates cs))"

text \<open>
  The \<open>try\<close> block of \<open>editImageWithText\<close>: what it returns or throws. The message of
  the engine's \<open>TypeError\<close> is not the program's; the \<open>catch\<close> below discards it.
\<close>

definition editImageWithText_try :: "remote_result \<Rightarrow> js_exn + string list" where
  "editImageWithText_try r =
     (case r of
        RemoteThrows \<Rightarrow> Inl OtherThrown
      | RemoteResponse resp \<Rightarrow>
          (case (case candidates resp of None \<Rightarrow> Some [] | Some cs \<Rightarrow> collectCandidates cs) of
             None \<Rightarrow> Inl (Error ''TypeError'')
           | Some images \<Rightarrow>
               if length images = 0
               then Inl (Error ''No edited image data found in the response.'')
               else Inr images))"

definition editImageWithText :: "env \<Rightarrow> nat \<Rightarrow> string \<Rightarrow> jsfile \<Rightarrow> js_exn + string list" where
  "editImageWithText e i prompt' imageFile =
     (case editImageWithText_try (generateContent e i prompt' imageFile) of
        Inl err \<Rightarrow>
          Inl (Error ''Failed to edit the image. Please check your prompt and image and try again.'')
      | Inr images \<Rightarrow> Inr images)"

text \<open>\<open>generateTextFromImageAndText\<close>: \<open>response.text\<close> may be \<open>undefined\<close>.\<close>

definition generateTextFromImageAndText ::
    "env \<Rightarrow> nat \<Rightarrow> string \<Rightarrow> jsfile \<Rightarrow> js_exn + string option" where
  "generateTextFromImageAndText e i prompt' imageFile =
     (case generateContent e i prompt' imageFile of
        RemoteThrows \<Rightarrow>
          Inl (Error ''Failed to get a response from the AI. Please check the console for details.'')
      | RemoteResponse resp \<Rightarrow> Inr (response_text resp))"

section \<open>Activity log (App.tsx)\<close>

definition addToHistory ::
    "env \<Rightarrow> history_type \<Rightarrow> string \<Rightarrow> string option list option \<Rightarrow> string list option
       \<Rightarrow> string option \<Rightarrow> studio \<Rightarrow> studio" where
  "addToHistory e ty p ins outs txt st =
     st\<lparr>history :=
          \<lparr>hist_id = randomUUID e (fresh st), hist_type = ty, timestamp = dateNow e (fresh st),
           hist_prompt = p, inputImages = ins, outputImages = outs, outputText = txt\<rparr>
            # history st,
        fresh := Suc (fresh st)\<rparr>"

section \<open>Batch job runner (EditTab.tsx)\<close>

text \<open>The decimal digits of a number, as a template literal prints it.\<close>

function show_nat :: "nat \<Rightarrow> string" where
  "show_nat n =
     (if n < 10 then [char_of (48 + n)]
      else show_nat (n div 10) @ [char_of (48 + n mod 10)])"
  by pat_completeness auto
termination
  by (relation "measure (\<lambda>n. n)") auto

declare show_nat.simps [simp del]

text \<open>\<open>Map.prototype.set\<close>: a present key keeps its place, a new key goes last.\<close>

fun Map_set :: "('k \<times> 'v) list \<Rightarrow> 'k \<Rightarrow> 'v \<Rightarrow> ('k \<times> 'v) list" where
  "Map_set [] k v = [(k, v)]"
| "Map_set ((k', v') # m) k v =
     (if k' = k then (k, v) # m else (k', v') # Map_set m k v)"

text \<open>
  The body of the \<open>for\<close> loop of \<open>handleSubmit\<close> for the item at index \<open>i\<close>, on the
  local \<open>newResults\<close> and the state. The request is noted in \<open>remoteCalls\<close> as it leaves.
\<close>

definition edit_item ::
    "env \<Rightarrow> string \<Rightarrow> nat \<Rightarrow> nat \<Rightarrow> uploaded_image
       \<Rightarrow> (string \<times> edit_result) list \<times> studio \<Rightarrow> (string \<times> edit_result) list \<times> studio" where
  "edit_item e trimmedPrompt total' i img acc =
     (let newResults = fst acc;
          st1 = (snd acc)\<lparr>progressMessage :=
                   ''Editing image '' @ show_nat (i + 1) @ '' of '' @ show_nat total'
                     @ '': '' @ file_name (image_file img)\<rparr>;
          st2 = st1\<lparr>remoteCalls := remoteCalls st1 @
                   [\<lparr>call_prompt = trimmedPrompt, call_file = image_file img,
                     call_progress = progressMessage st1,
                     call_published = editResults st1, call_local = newResults\<rparr>]\<rparr>
      in case editImageWithText e i trimmedPrompt (image_file img) of
           Inr resultUrls \<Rightarrow>
             (let originalDataUrl = fileToDataUrl e i (image_file img);
                  st3 = addToHistory e Edit trimmedPrompt (Some [originalDataUrl])
                          (Some resultUrls) None st2
              in (Map_set newResults (image_id img)
                    \<lparr>originalUrl = image_url img, editedUrls = resultUrls,
                     selectedEditedUrl =
                       (case resultUrls of
                          [] \<Rightarrow> None
                        | u # _ \<Rightarrow> if u = [] then None else Some u),
                     result_error = None\<rparr>,
                  st3))
         | Inl err \<Rightarrow>
             (Map_set newResults (image_id img)
                \<lparr>originalUrl = image_url img, editedUrls = [], selectedEditedUrl = None,
                 result_error =
                   Some (case err of Error m \<Rightarrow> m
                         | OtherThrown \<Rightarrow> ''An unknown error occurred'')\<rparr>,
              st2))"

fun edit_loop ::
    "env \<Rightarrow> string \<Rightarrow> nat \<Rightarrow> nat \<Rightarrow> uploaded_image list
       \<Rightarrow> (string \<times> edit_result) list \<times> studio \<Rightarrow> (string \<times> edit_result) list \<times> studio" where
  "edit_loop e trimmedPrompt total' i [] acc = acc"
| "edit_loop e trimmedPrompt total' i (img # rest) acc =
     edit_loop e trimmedPrompt total' (Suc i) rest (edit_item e trimmedPrompt total' i img acc)"

definition selectedImages :: "studio \<Rightarrow> uploaded_image list" where
  "selectedImages st = filter (\<lambda>img. image_id img \<in> selectedImageIds st) (uploadedImages st)"

definition handleSubmit :: "env \<Rightarrow> studio \<Rightarrow> studio" where
  "handleSubmit e st =
     (let trimmedPrompt = trim (editPrompt st)
      in if trimmedPrompt = [] \<or> selectedImageIds st = {}
         then st\<lparr>edit_error :=
                   ''Please select at least one image and provide editing instructions.''\<rparr>
         else
           (let st1 = st\<lparr>loading := True, edit_error := [], editResults := [],
                        progressMessage := ''Preparing to edit...''\<rparr>;
                total' = length (selectedImages st);
                finished = edit_loop e trimmedPrompt total' 0 (selectedImages st) ([], st1)
            in (snd finished)\<lparr>editResults := fst finished, loading := False, progressMessage := []\<rparr>))"

section \<open>Preset store (PresetTab.tsx, EditTab.tsx)\<close>

definition handleAddPreset :: "studio \<Rightarrow> studio" where
  "handleAddPreset st =
     (let trimmedTitle = trim (title (newPreset st));
          trimmedPrompt = trim (prompt (newPreset st))
      in if trimmedTitle = [] \<or> trimmedPrompt = []
         then st\<lparr>presetError := ''Both title and instructions are required.''\<rparr>
         else if list_ex (\<lambda>p. toLowerCase (title p) = toLowerCase trimmedTitle) (presets st)
         then st\<lparr>presetError := ''A preset with this title already exists.''\<rparr>
         else if list_ex (\<lambda>p. prompt p = trimmedPrompt) (presets st)
         then st\<lparr>presetError := ''A preset with these instructions already exists.''\<rparr>
         else st\<lparr>presets := \<lparr>title = trimmedTitle, prompt = trimmedPrompt\<rparr> # presets st,
                 newPreset := \<lparr>title = [], prompt = []\<rparr>,
                 presetError := []\<rparr>)"

text \<open>
  \<open>handleSaveAsPreset\<close>; the first argument is the answer of \<open>window.prompt\<close>, \<open>None\<close>
  when the dialog is cancelled. The dialog opens only past the first \<open>return\<close>.
\<close>

definition handleSaveAsPreset :: "string option \<Rightarrow> studio \<Rightarrow> studio" where
  "handleSaveAsPreset answer st =
     (let trimmedPrompt = trim (editPrompt st)
      in if trimmedPrompt = [] then st
         else
           (case answer of
              None \<Rightarrow> st
            | Some title' \<Rightarrow>
                if title' = [] \<or> trim title' = [] then st
                else
                  (let trimmedTitle = trim title'
                   in if list_ex (\<lambda>p. toLowerCase (title p) = toLowerCase trimmedTitle)
                           (presets st)
                      then st\<lparr>alerts := alerts st @ [''A preset with this title already exists.'']\<rparr>
                      else if list_ex (\<lambda>p. prompt p = trimmedPrompt) (presets st)
                      then st\<lparr>alerts := alerts st
                                 @ [''A preset with these instructions already exists.'']\<rparr>
                      else st\<lparr>presets := \<lparr>title = trimmedTitle, prompt = trimmedPrompt\<rparr>
                                            # presets st\<rparr>)))"

section \<open>Loading the persisted stores (App.tsx)\<close>

text \<open>
  A value that \<open>JSON.parse\<close> returns; the code never reads a number's value. The
  parser itself is the runtime's: it is the parameter \<open>parse\<close> below, \<open>None\<close> when it
  throws. \<open>localStorage.getItem\<close> throws, or returns \<open>null\<close> or a string.
\<close>

datatype json =
  JNull | JBool bool | JNumber int | JString string
  | JArray "json list" | JObject "(string \<times> json) list"

datatype getItem_result = GetThrows | GetNull | GetString string

definition initialPresets :: "preset list" where
  "initialPresets =
     [\<lparr>title = ''Vintage'', prompt = ''Make it vintage''\<rparr>,
      \<lparr>title = ''Cinematic'', prompt = ''Add cinematic lighting''\<rparr>,
      \<lparr>title = ''High Contrast'', prompt = ''Increase contrast''\<rparr>,
      \<lparr>title = ''B&W'', prompt = ''Convert to black and white''\<rparr>,
      \<lparr>title = ''Dreamy'', prompt = ''Add a dreamlike glow''\<rparr>]"

text \<open>A \<open>Preset\<close> as the value the state holds.\<close>

definition preset_json :: "preset \<Rightarrow> json" where
  "preset_json p = JObject [(''title'', JString (title p)), (''prompt'', JString (prompt p))]"

text \<open>\<open>typeof item === 'object' && item !== null\<close>: arrays are objects too.\<close>

fun isObjectNotNull :: "json \<Rightarrow> bool" where
  "isObjectNotNull (JArray xs) = True"
| "isObjectNotNull (JObject kvs) = True"
| "isObjectNotNull j = False"

text \<open>\<open>key in item\<close> for a key that no prototype supplies and that is no array index.\<close>

fun hasKey :: "string \<Rightarrow> json \<Rightarrow> bool" where
  "hasKey k (JObject kvs) = (k \<in> set (map fst kvs))"
| "hasKey k j = False"

text \<open>
  The \<open>try\<close> blocks of the two \<open>useState\<close> initializers: the value returned, or what
  is thrown.
\<close>

definition presets_try :: "(string \<Rightarrow> json option) \<Rightarrow> getItem_result \<Rightarrow> js_exn + json list" where
  "presets_try parse savedPresets =
     (case savedPresets of
        GetThrows \<Rightarrow> Inl OtherThrown
      | GetNull \<Rightarrow> Inr (map preset_json initialPresets)
      | GetString s \<Rightarrow>
          if s = [] then Inr (map preset_json initialPresets)
          else
            (case parse s of
               None \<Rightarrow> Inl (Error ''SyntaxError'')
             | Some (JArray parsedPresets) \<Rightarrow>
                 if list_all (\<lambda>item. isObjectNotNull item \<and> hasKey ''title'' item
                                      \<and> hasKey ''prompt'' item) parsedPresets
                 then Inr parsedPresets
                 else Inr (map preset_json initialPresets)
             | Some other \<Rightarrow> Inr (map preset_json initialPresets)))"

definition load_presets :: "(string \<Rightarrow> json option) \<Rightarrow> getItem_result \<Rightarrow> json list" where
  "load_presets parse savedPresets =
     (case presets_try parse savedPresets of
        Inl err \<Rightarrow> map preset_json initialPresets
      | Inr v \<Rightarrow> v)"

definition history_try :: "(string \<Rightarrow> json option) \<Rightarrow> getItem_result \<Rightarrow> js_exn + json list" where
  "history_try parse savedHistory =
     (case savedHistory of
        GetThrows \<Rightarrow> Inl OtherThrown
      | GetNull \<Rightarrow> Inr []
      | GetString s \<Rightarrow>
          if s = [] then Inr []
          else
            (case parse s of
               None \<Rightarrow> Inl (Error ''SyntaxError'')
             | Some (JArray parsedHistory) \<Rightarrow> Inr parsedHistory
             | Some other \<Rightarrow> Inr []))"

definition load_history :: "(string \<Rightarrow> json option) \<Rightarrow> getItem_result \<Rightarrow> json list" where
  "load_history parse savedHistory =
     (case history_try parse savedHistory of
        Inl err \<Rightarrow> []
      | Inr v \<Rightarrow> v)"

section \<open>Sample inputs and predicates of the statements\<close>

definition sample_file :: jsfile where
  "sample_file =
     \<lparr>file_name = ''a.png'', file_size = 3, file_type = ''image/png'', file_data = ''QUJD''\<rparr>"

definition image_response :: response where
  "image_response =
     \<lparr>candidates = Some [\<lparr>cand_content = Some \<lparr>parts = Some
         [\<lparr>inlineData = Some \<lparr>blob_data = Some ''AAAA'', blob_mimeType = Some ''image/png''\<rparr>\<rparr>]\<rparr>\<rparr>],
      response_text = None\<rparr>"

text \<open>
  A browser that numbers its identifiers and object URLs and reads every file, and a
  remote service that answers with one image unless the file is named \<open>bad.png\<close>,
  where it fails.
\<close>

definition sample_env :: env where
  "sample_env =
     \<lparr>randomUUID = (\<lambda>k. ''id'' @ replicate k (CHR ''+'')),
      createObjectURL = (\<lambda>k f. ''blob:'' @ file_name f),
      dateNow = (\<lambda>k. 1000 + int k),
      generateContent = (\<lambda>i p f. if file_name f = ''bad.png'' then RemoteThrows
                                  else RemoteResponse image_response),
      readAsDataURL = (\<lambda>i f. Some (''data:'' @ file_type f @ '';base64,'' @ file_data f))\<rparr>"

text \<open>The ids of the registered items.\<close>

definition registered_ids :: "studio \<Rightarrow> string set" where
  "registered_ids st = set (map image_id (uploadedImages st))"

text \<open>\<open>Array.isArray\<close>.\<close>

fun isArray :: "json \<Rightarrow> bool" where
  "isArray (JArray xs) = True"
| "isArray j = False"

text \<open>A runtime whose parser knows two texts: an array holding \<open>null\<close>, and a number.\<close>

definition sample_parse :: "string \<Rightarrow> json option" where
  "sample_parse s =
     (if s = ''[null]'' then Some (JArray [JNull])
      else if s = ''42'' then Some (JNumber 42)
      else None)"

text \<open>Four registered items, the first three selected, and the result of an earlier run;
  the remote service fails on the second item.\<close>

definition sample_studio :: studio where
  "sample_studio =
     initial_studio
       \<lparr>editPrompt := '' go '',
        uploadedImages :=
          [\<lparr>image_id = ''id'', image_file = sample_file, image_url = ''blob:a.png''\<rparr>,
           \<lparr>image_id = ''id+'', image_file = sample_file\<lparr>file_name := ''bad.png''\<rparr>,
            image_url = ''blob:bad.png''\<rparr>,
           \<lparr>image_id = ''id++'',
            image_file = sample_file\<lparr>file_name := ''c.png'', file_data := ''REVG''\<rparr>,
            image_url = ''blob:c.png''\<rparr>,
           \<lparr>image_id = ''id+++'', image_file = sample_file\<lparr>file_name := ''d.png''\<rparr>,
            image_url = ''blob:d.png''\<rparr>],
        selectedImageIds := {''id'', ''id+'', ''id++''},
        editResults :=
          [(''old'', \<lparr>originalUrl = ''blob:old'', editedUrls = [], selectedEditedUrl = None,
                      result_error = Some ''An unknown error occurred''\<rparr>)],
        fresh := 4\<rparr>"

text \<open>
  When adding a preset is refused, in the words of the specification: a field is empty
  after trimming, the label meets a stored label up to case, or the instruction meets a
  stored instruction exactly. Both fields are taken trimmed, as both handlers take them.
\<close>

definition preset_rejected :: "preset list \<Rightarrow> string \<Rightarrow> string \<Rightarrow> bool" where
  "preset_rejected ps label instruction =
     (trim label = [] \<or> trim instruction = []
      \<or> (\<exists>p \<in> set ps. toLowerCase (title p) = toLowerCase (trim label))
      \<or> (\<exists>p \<in> set ps. prompt p = trim instruction))"

text \<open>One stored preset, a form holding a label that differs from it in case only, and
  an instruction in the editor that the stored preset already has.\<close>

definition sample_preset_studio :: studio where
  "sample_preset_studio =
     initial_studio
       \<lparr>presets := [\<lparr>title = ''A'', prompt = ''X''\<rparr>],
        editPrompt := ''X'',
        newPreset := \<lparr>title = '' a '', prompt = ''Y''\<rparr>\<rparr>"

text \<open>The same store, with a form and an editor whose label and instruction are new.\<close>

definition sample_accepting_studio :: studio where
  "sample_accepting_studio =
     sample_preset_studio\<lparr>editPrompt := '' Z '', newPreset := \<lparr>title = '' B '', prompt = ''Y''\<rparr>\<rparr>"

section \<open>Notions used in the statements about a run\<close>

text \<open>
  The entry that the body of the loop stores for the item at index \<open>i\<close>, read off the
  body run on an empty collection.
\<close>

definition result_of :: "env \<Rightarrow> string \<Rightarrow> nat \<Rightarrow> uploaded_image \<Rightarrow> edit_result" where
  "result_of e p i img = snd (last (fst (edit_item e p 0 i img ([], initial_studio))))"

text \<open>The entries of a list of items whose first has index \<open>i\<close>, in their order.\<close>

fun results_from :: "env \<Rightarrow> string \<Rightarrow> nat \<Rightarrow> uploaded_image list \<Rightarrow> (string \<times> edit_result) list" where
  "results_from e p i [] = []"
| "results_from e p i (img # rest) = (image_id img, result_of e p i img) # results_from e p (Suc i) rest"

text \<open>
  The items of a list on which the remote edit succeeds, each with its index and the
  images returned, in the order of processing.
\<close>

fun successes ::
    "env \<Rightarrow> string \<Rightarrow> nat \<Rightarrow> uploaded_image list \<Rightarrow> (nat \<times> uploaded_image \<times> string list) list" where
  "successes e p i [] = []"
| "successes e p i (img # rest) =
     (case editImageWithText e i p (image_file img) of
        Inr urls \<Rightarrow> (i, img, urls) # successes e p (Suc i) rest
      | Inl err \<Rightarrow> successes e p (Suc i) rest)"

text \<open>
  An activity record without its identifier and timestamp, and the record a successful
  edit is to leave, seen the same way.
\<close>

definition hist_view ::
    "history_item
       \<Rightarrow> history_type \<times> string \<times> string option list option \<times> string list option
           \<times> string option" where
  "hist_view h = (hist_type h, hist_prompt h, inputImages h, outputImages h, outputText h)"

definition edit_record ::
    "env \<Rightarrow> string \<Rightarrow> nat \<times> uploaded_image \<times> string list
       \<Rightarrow> history_type \<times> string \<times> string option list option \<times> string list option
           \<times> string option" where
  "edit_record e p s =
     (Edit, p, Some [fileToDataUrl e (fst s) (image_file (fst (snd s)))], Some (snd (snd s)),
      None)"

text \<open>
  What a result entry is to hold for an item, given the outcome of its remote edit: on a
  failure no outputs, no active output and a failure text that is not empty; on a success
  the outputs returned, which are not empty, the first of them active, and no failure.
\<close>

definition entry_ok :: "js_exn + string list \<Rightarrow> uploaded_image \<Rightarrow> edit_result \<Rightarrow> bool" where
  "entry_ok outcome img r =
     (originalUrl r = image_url img \<and>
      (case outcome of
         Inl err \<Rightarrow> editedUrls r = [] \<and> selectedEditedUrl r = None
                      \<and> (\<exists>m. result_error r = Some m \<and> m \<noteq> [])
       | Inr urls \<Rightarrow> urls \<noteq> [] \<and> editedUrls r = urls \<and> selectedEditedUrl r = Some (hd urls)
                      \<and> result_error r = None))"

text \<open>The file of a request and the two collections as they were when it left.\<close>

definition call_view :: "remote_call \<Rightarrow> jsfile \<times> (string \<times> edit_result) list \<times> (string \<times> edit_result) list" where
  "call_view c = (call_file c, call_published c, call_local c)"

section \<open>Item registry: selection, duplicates, handle release\<close>

lemma uploadedImages_setUploadedImages [simp]:
  "uploadedImages (setUploadedImages imgs st) = imgs"
  by (simp add: setUploadedImages_def effectCleanup_def)

lemma selectedImageIds_setUploadedImages [simp]:
  "selectedImageIds (setUploadedImages imgs st) = selectedImageIds st"
  by (simp add: setUploadedImages_def effectCleanup_def)

lemma registered_handleImagesChange:
  "registered_ids st \<subseteq> registered_ids (handleImagesChange e fs st)"
  by (auto simp: registered_ids_def handleImagesChange_def Let_def)

lemma selected_handleImagesChange:
  "selectedImageIds (handleImagesChange e fs st) = selectedImageIds st"
  by (simp add: handleImagesChange_def Let_def)

lemma registered_handleRemoveImage:
  "registered_ids (handleRemoveImage i st) = registered_ids st - {i}"
  by (auto simp: registered_ids_def handleRemoveImage_def Let_def split: option.splits)

lemma selected_handleRemoveImage:
  "selectedImageIds (handleRemoveImage i st) = selectedImageIds st - {i}"
  by (simp add: handleRemoveImage_def Let_def split: option.splits)

lemma apply_op_keeps_subset:
  assumes "selectedImageIds st \<subseteq> registered_ids st"
    and "\<And>i. x = ToggleSelection i \<Longrightarrow> i \<in> registered_ids st"
  shows "selectedImageIds (apply_op e x st) \<subseteq> registered_ids (apply_op e x st)"
proof (cases x)
  case (AddItems fs)
  with assms(1) registered_handleImagesChange [of st e fs] show ?thesis
    by (auto simp: selected_handleImagesChange)
next
  case (RemoveItem i)
  with assms(1) show ?thesis
    by (auto simp: registered_handleRemoveImage selected_handleRemoveImage)
next
  case ClearAll
  then show ?thesis by (simp add: handleClearAllImages_def Let_def)
next
  case (ToggleSelection i)
  with assms show ?thesis
    by (auto simp: handleToggleSelection_def registered_ids_def)
next
  case SelectAll
  then show ?thesis by (simp add: handleSelectAll_def registered_ids_def)
next
  case DeselectAll
  then show ?thesis by (simp add: handleDeselectAll_def)
qed

lemma run_ops_keeps_subset:
  "selectedImageIds st \<subseteq> registered_ids st \<Longrightarrow> toggles_registered e ops st \<Longrightarrow>
   selectedImageIds (run_ops e ops st) \<subseteq> registered_ids (run_ops e ops st)"
proof (induction ops arbitrary: st)
  case Nil
  then show ?case by simp
next
  case (Cons x xs)
  have "selectedImageIds (apply_op e x st) \<subseteq> registered_ids (apply_op e x st)"
    using Cons.prems by (intro apply_op_keeps_subset) (auto simp: registered_ids_def)
  moreover have "toggles_registered e xs (apply_op e x st)"
    using Cons.prems by simp
  ultimately show ?case using Cons.IH by simp
qed

text \<open>
  What \<open>handleImagesChange\<close> does keep: the new items follow the stored ones in the
  order of the input, a file that meets a stored item is left out, and a batch whose
  files differ pairwise in name or size adds no duplicate.
\<close>

lemma image_file_mkImages: "map image_file (mkImages e k fs) = fs"
  by (induction fs arbitrary: k) auto

lemma handleImagesChange_appends:
  "uploadedImages (handleImagesChange e fs st) =
     uploadedImages st @ mkImages e (fresh st)
       (filter (\<lambda>f. \<not> list_ex (\<lambda>img. file_name (image_file img) = file_name f
                                      \<and> file_size (image_file img) = file_size f)
                               (uploadedImages st)) fs)"
  by (simp add: handleImagesChange_def Let_def)

lemma handleImagesChange_files:
  "map image_file (uploadedImages (handleImagesChange e fs st)) =
     map image_file (uploadedImages st)
       @ filter (\<lambda>f. \<not> list_ex (\<lambda>img. file_name (image_file img) = file_name f
                                      \<and> file_size (image_file img) = file_size f)
                               (uploadedImages st)) fs"
  by (simp add: handleImagesChange_appends image_file_mkImages)

lemma handleImagesChange_distinct_batch:
  assumes "distinct (map (\<lambda>f. (file_name f, file_size f)) (map image_file (uploadedImages st)))"
    and "distinct (map (\<lambda>f. (file_name f, file_size f)) fs)"
  shows "distinct (map (\<lambda>f. (file_name f, file_size f))
                    (map image_file (uploadedImages (handleImagesChange e fs st))))"
proof -
  let ?stored = "\<lambda>f. list_ex (\<lambda>img. file_name (image_file img) = file_name f
                                      \<and> file_size (image_file img) = file_size f)
                               (uploadedImages st)"
  have "distinct (map (\<lambda>f. (file_name f, file_size f)) (filter (\<lambda>f. \<not> ?stored f) fs))"
    using assms(2) by (rule distinct_map_filter)
  moreover have "set (map (\<lambda>f. (file_name f, file_size f)) (map image_file (uploadedImages st)))
        \<inter> set (map (\<lambda>f. (file_name f, file_size f)) (filter (\<lambda>f. \<not> ?stored f) fs)) = {}"
    by (auto simp: list_ex_iff)
  ultimately show ?thesis
    using assms(1) unfolding handleImagesChange_files by (simp only: map_append distinct_append)
qed

text \<open>
  C3. Each item's display handle is to be released exactly once. The code releases the
  handle of a removed item twice, in \<open>handleRemoveImage\<close> and again in the cleanup of
  the effect, which runs on the previous list at every change of the list; the same cleanup
  releases the handle of the first item, still registered, when a second item is added.
\<close>

theorem handle_released_twice:
  "count_list
     (revoked (handleRemoveImage ''id''
        (handleImagesChange sample_env [sample_file] initial_studio)))
     ''blob:a.png'' = 2
   \<and> ''id'' \<in> registered_ids
        (handleImagesChange sample_env [sample_file\<lparr>file_name := ''b.png''\<rparr>]
           (handleImagesChange sample_env [sample_file] initial_studio))
   \<and> revoked
        (handleImagesChange sample_env [sample_file\<lparr>file_name := ''b.png''\<rparr>]
           (handleImagesChange sample_env [sample_file] initial_studio)) = [''blob:a.png'']"
  by (simp add: handleRemoveImage_def handleImagesChange_def initial_studio_def
      sample_env_def sample_file_def setUploadedImages_def effectCleanup_def
      registered_ids_def)

text \<open>
  C4. No two stored items are to share a name and a size. \<open>handleImagesChange\<close> compares
  each incoming file with the stored items only, so one call with the same file twice
  stores it twice.
\<close>

theorem duplicate_within_batch_stored:
  "map (\<lambda>img. (file_name (image_file img), file_size (image_file img)))
     (uploadedImages (handleImagesChange sample_env [sample_file, sample_file] initial_studio))
   = [(''a.png'', 3), (''a.png'', 3)]"
  by (simp add: handleImagesChange_def initial_studio_def sample_env_def sample_file_def)

text \<open>
  C5, as stated: toggling an id that names no registered item changes nothing. The code
  adds the id to the selection, which then is no subset of the registered ids.
\<close>

theorem toggle_unknown_counterexample:
  "handleToggleSelection ''ghost'' initial_studio \<noteq> initial_studio
   \<and> selectedImageIds (handleToggleSelection ''ghost'' initial_studio) = {''ghost''}
   \<and> registered_ids (handleToggleSelection ''ghost'' initial_studio) = {}"
  by (simp add: handleToggleSelection_def initial_studio_def registered_ids_def)

lemma handleToggleSelection_state:
  "handleToggleSelection j st =
     st\<lparr>selectedImageIds :=
          (if j \<in> selectedImageIds st then selectedImageIds st - {j}
           else insert j (selectedImageIds st))\<rparr>"
  by (simp add: handleToggleSelection_def)

lemma uploadedImages_handleRemoveImage:
  "uploadedImages (handleRemoveImage i st) = filter (\<lambda>img. image_id img \<noteq> i) (uploadedImages st)"
  by (simp add: handleRemoveImage_def Let_def split: option.splits)

lemma handleClearAllImages_empties:
  "selectedImageIds (handleClearAllImages st) = {} \<and> uploadedImages (handleClearAllImages st) = []"
  by (simp add: handleClearAllImages_def Let_def)

text \<open>
  C5, amended. A toggle takes the id out of the selection when it is in it and puts it
  in otherwise, whether or not an item of that id is registered, and changes nothing
  else. When every toggle of a sequence of registry operations names an item registered
  at that moment, a selection that is a subset of the registered ids stays one. Removing
  an item takes the items of that id out of the registry and that id, and no other, out
  of the selection; select-all selects exactly the registered ids, deselect-all nothing;
  clearing empties both; adding items leaves the selection as it is.
\<close>

theorem selection_subset_of_registered:
  "(selectedImageIds st \<subseteq> registered_ids st \<and> toggles_registered e ops st \<longrightarrow>
      selectedImageIds (run_ops e ops st) \<subseteq> registered_ids (run_ops e ops st))
   \<and> handleToggleSelection j st =
       st\<lparr>selectedImageIds :=
            (if j \<in> selectedImageIds st then selectedImageIds st - {j}
             else insert j (selectedImageIds st))\<rparr>
   \<and> selectedImageIds (handleRemoveImage i st) = selectedImageIds st - {i}
   \<and> uploadedImages (handleRemoveImage i st)
       = filter (\<lambda>img. image_id img \<noteq> i) (uploadedImages st)
   \<and> handleSelectAll st = st\<lparr>selectedImageIds := registered_ids st\<rparr>
   \<and> handleDeselectAll st = st\<lparr>selectedImageIds := {}\<rparr>
   \<and> selectedImageIds (handleClearAllImages st) = {}
   \<and> uploadedImages (handleClearAllImages st) = []
   \<and> selectedImageIds (handleImagesChange e fs st) = selectedImageIds st"
proof -
  have inv: "selectedImageIds st \<subseteq> registered_ids st \<and> toggles_registered e ops st \<longrightarrow>
      selectedImageIds (run_ops e ops st) \<subseteq> registered_ids (run_ops e ops st)"
    using run_ops_keeps_subset [of st e ops] by blast
  have all: "handleSelectAll st = st\<lparr>selectedImageIds := registered_ids st\<rparr>"
    by (simp add: handleSelectAll_def registered_ids_def)
  have none: "handleDeselectAll st = st\<lparr>selectedImageIds := {}\<rparr>"
    by (simp add: handleDeselectAll_def)
  from inv handleToggleSelection_state [of j st] selected_handleRemoveImage [of i st]
    uploadedImages_handleRemoveImage [of i st] all none handleClearAllImages_empties [of st]
    selected_handleImagesChange [of e fs st]
  show ?thesis by (intro conjI) simp_all
qed

theorem selection_subset_of_registered_witness:
  "selectedImageIds sample_studio \<subseteq> registered_ids sample_studio
   \<and> toggles_registered sample_env [ToggleSelection ''id+'', AddItems [sample_file\<lparr>file_name := ''e.png''\<rparr>], RemoveItem ''id'', SelectAll] sample_studio
   \<and> selectedImageIds (run_ops sample_env [ToggleSelection ''id+'', AddItems [sample_file\<lparr>file_name := ''e.png''\<rparr>], RemoveItem ''id'', SelectAll] sample_studio)
       \<subseteq> registered_ids (run_ops sample_env [ToggleSelection ''id+'', AddItems [sample_file\<lparr>file_name := ''e.png''\<rparr>], RemoveItem ''id'', SelectAll] sample_studio)
   \<and> selectedImageIds (handleToggleSelection ''id'' sample_studio) = {''id+'', ''id++''}
   \<and> selectedImageIds (handleToggleSelection ''id+++'' sample_studio)
       = {''id'', ''id+'', ''id++'', ''id+++''}
   \<and> selectedImageIds (handleRemoveImage ''id+'' sample_studio) = {''id'', ''id++''}
   \<and> map image_id (uploadedImages (handleRemoveImage ''id+'' sample_studio))
       = [''id'', ''id++'', ''id+++'']
   \<and> selectedImageIds (handleSelectAll sample_studio) = {''id'', ''id+'', ''id++'', ''id+++''}"
proof -
  have sel: "selectedImageIds sample_studio = {''id'', ''id+'', ''id++''}"
    by (simp add: sample_studio_def initial_studio_def)
  have reg: "registered_ids sample_studio = {''id'', ''id+'', ''id++'', ''id+++''}"
    by (simp add: registered_ids_def sample_studio_def initial_studio_def)
  have ids: "map image_id (uploadedImages sample_studio) = [''id'', ''id+'', ''id++'', ''id+++'']"
    by (simp add: sample_studio_def initial_studio_def)
  have sub: "selectedImageIds sample_studio \<subseteq> registered_ids sample_studio"
    by (simp add: sel reg)
  have tog: "toggles_registered sample_env [ToggleSelection ''id+'', AddItems [sample_file\<lparr>file_name := ''e.png''\<rparr>], RemoveItem ''id'', SelectAll] sample_studio"
    by (simp add: ids)
  note a = selection_subset_of_registered
             [of sample_studio sample_env "[ToggleSelection ''id+'', AddItems [sample_file\<lparr>file_name := ''e.png''\<rparr>], RemoveItem ''id'', SelectAll]" "''id''" "''id+''"]
  note b = selection_subset_of_registered
             [of sample_studio sample_env "[]" "''id+++''" "''id+''"]
  from a sub tog
  have inv: "selectedImageIds (run_ops sample_env [ToggleSelection ''id+'', AddItems [sample_file\<lparr>file_name := ''e.png''\<rparr>], RemoveItem ''id'', SelectAll] sample_studio)
       \<subseteq> registered_ids (run_ops sample_env [ToggleSelection ''id+'', AddItems [sample_file\<lparr>file_name := ''e.png''\<rparr>], RemoveItem ''id'', SelectAll] sample_studio)"
    by blast
  from a have t1: "selectedImageIds (handleToggleSelection ''id'' sample_studio) = {''id+'', ''id++''}"
    by (simp add: sel)
  from b have t2: "selectedImageIds (handleToggleSelection ''id+++'' sample_studio)
       = {''id'', ''id+'', ''id++'', ''id+++''}"
    by (auto simp: sel)
  from a have r1: "selectedImageIds (handleRemoveImage ''id+'' sample_studio) = {''id'', ''id++''}"
    by (auto simp: sel)
  from a have "map image_id (uploadedImages (handleRemoveImage ''id+'' sample_studio))
       = map image_id (filter (\<lambda>img. image_id img \<noteq> ''id+'') (uploadedImages sample_studio))"
    by simp
  then have r2: "map image_id (uploadedImages (handleRemoveImage ''id+'' sample_studio))
       = [''id'', ''id++'', ''id+++'']"
    by (simp add: sample_studio_def initial_studio_def)
  from a have s1: "selectedImageIds (handleSelectAll sample_studio)
       = {''id'', ''id+'', ''id++'', ''id+++''}"
    by (simp add: reg)
  from sub tog inv t1 t2 r1 r2 s1 show ?thesis by (intro conjI)
qed

section \<open>Batch job runner: validation\<close>

text \<open>
  C2. Starting a run with an instruction that is empty after trimming, or with an empty
  selection, only sets the validation message: no request is sent, and the published
  results, the activity log and every other field stay as they were.
\<close>

theorem submit_validation:
  assumes "trim (editPrompt st) = [] \<or> selectedImageIds st = {}"
  shows "handleSubmit e st =
           st\<lparr>edit_error := ''Please select at least one image and provide editing instructions.''\<rparr>
         \<and> edit_error (handleSubmit e st) \<noteq> []
         \<and> remoteCalls (handleSubmit e st) = remoteCalls st
         \<and> editResults (handleSubmit e st) = editResults st
         \<and> history (handleSubmit e st) = history st"
  using assms by (auto simp: handleSubmit_def Let_def)

theorem submit_validation_witness:
  "trim (editPrompt (sample_studio\<lparr>editPrompt := ''   ''\<rparr>)) = []
   \<and> handleSubmit sample_env (sample_studio\<lparr>editPrompt := ''   ''\<rparr>) =
       sample_studio\<lparr>editPrompt := ''   '',
         edit_error := ''Please select at least one image and provide editing instructions.''\<rparr>
   \<and> remoteCalls (handleSubmit sample_env (sample_studio\<lparr>editPrompt := ''   ''\<rparr>)) = []"
proof -
  have blank: "trim (editPrompt (sample_studio\<lparr>editPrompt := ''   ''\<rparr>)) = []"
    by (simp add: trim_def isWhiteSpace_def)
  have "remoteCalls (sample_studio\<lparr>editPrompt := ''   ''\<rparr>) = []"
    by (simp add: sample_studio_def initial_studio_def)
  with blank submit_validation [of "sample_studio\<lparr>editPrompt := ''   ''\<rparr>" sample_env]
  show ?thesis by simp
qed

section \<open>Preset store: the checks of the two ways to add\<close>

lemma trim_Nil [simp]: "trim [] = []"
  by (simp add: trim_def)

lemma handleAddPreset_rejected:
  "preset_rejected (presets st) (title (newPreset st)) (prompt (newPreset st)) \<Longrightarrow>
   \<exists>m. m \<noteq> [] \<and> handleAddPreset st = st\<lparr>presetError := m\<rparr>"
  by (simp add: preset_rejected_def handleAddPreset_def Let_def list_ex_iff, blast)

lemma handleAddPreset_accepted:
  "\<not> preset_rejected (presets st) (title (newPreset st)) (prompt (newPreset st)) \<Longrightarrow>
   handleAddPreset st =
     st\<lparr>presets := \<lparr>title = trim (title (newPreset st)), prompt = trim (prompt (newPreset st))\<rparr>
                      # presets st,
        newPreset := \<lparr>title = [], prompt = []\<rparr>, presetError := []\<rparr>"
  by (simp add: preset_rejected_def handleAddPreset_def Let_def list_ex_iff)

lemma handleSaveAsPreset_same_checks:
  "presets (handleSaveAsPreset (Some label) st) =
   presets (handleAddPreset (st\<lparr>newPreset := \<lparr>title = label, prompt = editPrompt st\<rparr>\<rparr>))"
  by (simp add: handleAddPreset_def handleSaveAsPreset_def Let_def)

lemma handleSaveAsPreset_cancelled: "handleSaveAsPreset None st = st"
  by (simp add: handleSaveAsPreset_def Let_def)

lemma handleSaveAsPreset_silent:
  "trim label = [] \<or> trim (editPrompt st) = [] \<Longrightarrow> handleSaveAsPreset (Some label) st = st"
  by (auto simp: handleSaveAsPreset_def Let_def)

lemma handleSaveAsPreset_alert:
  assumes "trim label \<noteq> []" and "trim (editPrompt st) \<noteq> []"
    and "preset_rejected (presets st) label (editPrompt st)"
  shows "\<exists>m. m \<noteq> [] \<and> handleSaveAsPreset (Some label) st = st\<lparr>alerts := alerts st @ [m]\<rparr>"
proof -
  from assms(1) have "label \<noteq> []" by auto
  with assms show ?thesis
    by (simp add: preset_rejected_def handleSaveAsPreset_def Let_def list_ex_iff, blast)
qed

lemma handleSaveAsPreset_accepted:
  assumes "\<not> preset_rejected (presets st) label (editPrompt st)"
  shows "handleSaveAsPreset (Some label) st =
           st\<lparr>presets := \<lparr>title = trim label, prompt = trim (editPrompt st)\<rparr> # presets st\<rparr>"
proof -
  from assms have "trim label \<noteq> []" by (simp add: preset_rejected_def)
  then have "label \<noteq> []" by auto
  with assms show ?thesis
    by (simp add: preset_rejected_def handleSaveAsPreset_def Let_def list_ex_iff)
qed

text \<open>
  C6, as stated: every refused addition is refused with a validation failure, on both
  paths. The save action of the editor, given a title of blanks, returns with the whole
  state as it was: no alert, no message.
\<close>

theorem save_blank_title_counterexample:
  "trim ''  '' = []
   \<and> handleSaveAsPreset (Some ''  '') (initial_studio\<lparr>editPrompt := ''glow''\<rparr>)
       = initial_studio\<lparr>editPrompt := ''glow''\<rparr>"
  by (simp add: handleSaveAsPreset_def trim_def isWhiteSpace_def Let_def)

text \<open>
  C6, amended. With both fields taken trimmed: the form refuses the addition when a field
  is empty, the label meets a stored label up to case or the instruction meets a stored
  instruction, and then only sets a message; otherwise it puts the trimmed pair at the
  front, clears the form and the message. The save action of the editor leaves the same
  list as the form would on the same pair. It changes nothing and says nothing when the
  title dialog is cancelled or a field is empty; on either collision it raises one alert
  and changes nothing else; otherwise it puts the trimmed pair at the front, raises no
  alert and changes nothing else.
\<close>

theorem add_preset_checks:
  "(preset_rejected (presets st) (title (newPreset st)) (prompt (newPreset st)) \<longrightarrow>
      (\<exists>m. m \<noteq> [] \<and> handleAddPreset st = st\<lparr>presetError := m\<rparr>))
   \<and> (\<not> preset_rejected (presets st) (title (newPreset st)) (prompt (newPreset st)) \<longrightarrow>
      handleAddPreset st =
        st\<lparr>presets := \<lparr>title = trim (title (newPreset st)),
                         prompt = trim (prompt (newPreset st))\<rparr> # presets st,
           newPreset := \<lparr>title = [], prompt = []\<rparr>, presetError := []\<rparr>)
   \<and> presets (handleSaveAsPreset (Some label) st) =
       presets (handleAddPreset (st\<lparr>newPreset := \<lparr>title = label, prompt = editPrompt st\<rparr>\<rparr>))
   \<and> handleSaveAsPreset None st = st
   \<and> (trim label = [] \<or> trim (editPrompt st) = [] \<longrightarrow> handleSaveAsPreset (Some label) st = st)
   \<and> (trim label \<noteq> [] \<and> trim (editPrompt st) \<noteq> []
        \<and> preset_rejected (presets st) label (editPrompt st) \<longrightarrow>
      (\<exists>m. m \<noteq> [] \<and> handleSaveAsPreset (Some label) st = st\<lparr>alerts := alerts st @ [m]\<rparr>))
   \<and> (\<not> preset_rejected (presets st) label (editPrompt st) \<longrightarrow>
      handleSaveAsPreset (Some label) st =
        st\<lparr>presets := \<lparr>title = trim label, prompt = trim (editPrompt st)\<rparr> # presets st\<rparr>)"
  using handleAddPreset_rejected [of st] handleAddPreset_accepted [of st]
    handleSaveAsPreset_same_checks [of label st] handleSaveAsPreset_cancelled [of st]
    handleSaveAsPreset_silent [of label st] handleSaveAsPreset_alert [of label st]
    handleSaveAsPreset_accepted [of st label]
  by blast

theorem add_preset_checks_witness:
  "preset_rejected (presets sample_preset_studio) (title (newPreset sample_preset_studio))
     (prompt (newPreset sample_preset_studio))
   \<and> presets (handleAddPreset sample_preset_studio) = [\<lparr>title = ''A'', prompt = ''X''\<rparr>]
   \<and> presetError (handleAddPreset sample_preset_studio) \<noteq> []
   \<and> trim ''B'' \<noteq> [] \<and> trim (editPrompt sample_preset_studio) \<noteq> []
   \<and> preset_rejected (presets sample_preset_studio) ''B'' (editPrompt sample_preset_studio)
   \<and> presets (handleSaveAsPreset (Some ''B'') sample_preset_studio)
       = [\<lparr>title = ''A'', prompt = ''X''\<rparr>]
   \<and> (\<exists>m. m \<noteq> [] \<and> alerts (handleSaveAsPreset (Some ''B'') sample_preset_studio) = [m])
   \<and> handleSaveAsPreset None sample_preset_studio = sample_preset_studio
   \<and> trim ''  '' = []
   \<and> handleSaveAsPreset (Some ''  '') sample_preset_studio = sample_preset_studio
   \<and> \<not> preset_rejected (presets sample_accepting_studio)
          (title (newPreset sample_accepting_studio)) (prompt (newPreset sample_accepting_studio))
   \<and> presets (handleAddPreset sample_accepting_studio)
       = [\<lparr>title = ''B'', prompt = ''Y''\<rparr>, \<lparr>title = ''A'', prompt = ''X''\<rparr>]
   \<and> presetError (handleAddPreset sample_accepting_studio) = []
   \<and> \<not> preset_rejected (presets sample_accepting_studio) ''C''
          (editPrompt sample_accepting_studio)
   \<and> presets (handleSaveAsPreset (Some ''C'') sample_accepting_studio)
       = [\<lparr>title = ''C'', prompt = ''Z''\<rparr>, \<lparr>title = ''A'', prompt = ''X''\<rparr>]
   \<and> alerts (handleSaveAsPreset (Some ''C'') sample_accepting_studio) = []"
proof -
  have f1: "presets sample_preset_studio = [\<lparr>title = ''A'', prompt = ''X''\<rparr>]"
    "newPreset sample_preset_studio = \<lparr>title = '' a '', prompt = ''Y''\<rparr>"
    "editPrompt sample_preset_studio = ''X''" "alerts sample_preset_studio = []"
    by (simp_all add: sample_preset_studio_def initial_studio_def)
  have f2: "presets sample_accepting_studio = [\<lparr>title = ''A'', prompt = ''X''\<rparr>]"
    "newPreset sample_accepting_studio = \<lparr>title = '' B '', prompt = ''Y''\<rparr>"
    "editPrompt sample_accepting_studio = '' Z ''" "alerts sample_accepting_studio = []"
    by (simp_all add: sample_accepting_studio_def sample_preset_studio_def initial_studio_def)
  have low: "toLowerCase ''A'' = toLowerCase ''a''" "toLowerCase ''A'' \<noteq> toLowerCase ''B''"
    "toLowerCase ''A'' \<noteq> toLowerCase ''C''"
    by code_simp+
  have tr: "trim '' a '' = ''a''" "trim ''Y'' = ''Y''" "trim ''B'' = ''B''" "trim ''X'' = ''X''"
    "trim '' B '' = ''B''" "trim ''C'' = ''C''" "trim '' Z '' = ''Z''" "trim ''  '' = []"
    by (simp_all add: trim_def isWhiteSpace_def)
  have r1: "preset_rejected (presets sample_preset_studio)
              (title (newPreset sample_preset_studio)) (prompt (newPreset sample_preset_studio))"
    using low by (simp add: f1 preset_rejected_def tr)
  have r2: "preset_rejected (presets sample_preset_studio) ''B'' (editPrompt sample_preset_studio)"
    by (simp add: f1 preset_rejected_def tr)
  have r3: "\<not> preset_rejected (presets sample_accepting_studio)
          (title (newPreset sample_accepting_studio)) (prompt (newPreset sample_accepting_studio))"
    using low by (simp add: f2 preset_rejected_def tr)
  have r4: "\<not> preset_rejected (presets sample_accepting_studio) ''C''
          (editPrompt sample_accepting_studio)"
    using low by (simp add: f2 preset_rejected_def tr)
  note a = add_preset_checks [of sample_preset_studio "''B''"]
  note b = add_preset_checks [of sample_preset_studio "''  ''"]
  note c = add_preset_checks [of sample_accepting_studio "''C''"]
  from a r1 obtain m where m: "m \<noteq> []"
      "handleAddPreset sample_preset_studio = sample_preset_studio\<lparr>presetError := m\<rparr>"
    by blast
  from m have w1: "presets (handleAddPreset sample_preset_studio) = [\<lparr>title = ''A'', prompt = ''X''\<rparr>]"
    and w2: "presetError (handleAddPreset sample_preset_studio) \<noteq> []"
    by (simp_all add: f1)
  from a r2 obtain n where n: "n \<noteq> []"
      "handleSaveAsPreset (Some ''B'') sample_preset_studio
         = sample_preset_studio\<lparr>alerts := alerts sample_preset_studio @ [n]\<rparr>"
    by (auto simp: f1 tr)
  from n have w3: "presets (handleSaveAsPreset (Some ''B'') sample_preset_studio)
       = [\<lparr>title = ''A'', prompt = ''X''\<rparr>]"
    and w4: "\<exists>m. m \<noteq> [] \<and> alerts (handleSaveAsPreset (Some ''B'') sample_preset_studio) = [m]"
    by (simp_all add: f1)
  from a have w5: "handleSaveAsPreset None sample_preset_studio = sample_preset_studio"
    by blast
  from b have w6: "handleSaveAsPreset (Some ''  '') sample_preset_studio = sample_preset_studio"
    by (simp add: tr)
  from c r3 have w7: "presets (handleAddPreset sample_accepting_studio)
       = [\<lparr>title = ''B'', prompt = ''Y''\<rparr>, \<lparr>title = ''A'', prompt = ''X''\<rparr>]"
    and w8: "presetError (handleAddPreset sample_accepting_studio) = []"
    by (simp_all add: f2 tr)
  from c r4 have w9: "presets (handleSaveAsPreset (Some ''C'') sample_accepting_studio)
       = [\<lparr>title = ''C'', prompt = ''Z''\<rparr>, \<lparr>title = ''A'', prompt = ''X''\<rparr>]"
    and w10: "alerts (handleSaveAsPreset (Some ''C'') sample_accepting_studio) = []"
    by (simp_all add: f2 tr)
  have t: "trim ''B'' \<noteq> []" "trim (editPrompt sample_preset_studio) \<noteq> []" "trim ''  '' = []"
    by (simp_all add: f1 tr)
  from r1 w1 w2 t(1,2) r2 w3 w4 w5 t(3) w6 r3 w7 w8 r4 w9 w10 show ?thesis
    by (intro conjI)
qed

section \<open>Loading the persisted stores\<close>

lemma preset_shape:
  "(isObjectNotNull item \<and> hasKey ''title'' item \<and> hasKey ''prompt'' item)
   = (\<exists>kvs. item = JObject kvs \<and> ''title'' \<in> fst ` set kvs \<and> ''prompt'' \<in> fst ` set kvs)"
  by (cases item) auto

text \<open>
  C7. When reading the key throws, or the value is absent, empty, unparseable or parses
  to something that is no array, both initializers return: the activity log is empty,
  the preset list is the five seed presets, which is not the empty list.
\<close>

theorem load_fallback:
  assumes "r = GetThrows \<or> r = GetNull
           \<or> (\<exists>s. r = GetString s \<and> (s = [] \<or> parse s = None
                 \<or> (\<exists>j. parse s = Some j \<and> \<not> isArray j)))"
  shows "load_history parse r = []
         \<and> load_presets parse r = map preset_json initialPresets
         \<and> load_presets parse r \<noteq> []"
proof -
  have seeds: "map preset_json initialPresets \<noteq> []"
    by (simp add: initialPresets_def)
  have "load_history parse r = []"
    using assms
    by (auto simp: load_history_def history_try_def split: option.splits json.splits)
  moreover have "load_presets parse r = map preset_json initialPresets"
    using assms
    by (auto simp: load_presets_def presets_try_def split: option.splits json.splits)
  ultimately show ?thesis using seeds by simp
qed

theorem load_fallback_witness:
  "sample_parse ''42'' = Some (JNumber 42) \<and> \<not> isArray (JNumber 42)
   \<and> load_history sample_parse (GetString ''42'') = []
   \<and> load_presets sample_parse (GetString ''42'') = map preset_json initialPresets
   \<and> length (load_presets sample_parse (GetString ''42'')) = 5"
proof -
  have p: "sample_parse ''42'' = Some (JNumber 42)"
    by (simp add: sample_parse_def)
  have "GetString ''42'' = GetThrows \<or> GetString ''42'' = GetNull
        \<or> (\<exists>s. GetString ''42'' = GetString s \<and> (s = [] \<or> sample_parse s = None
              \<or> (\<exists>j. sample_parse s = Some j \<and> \<not> isArray j)))"
    using p by simp
  from load_fallback [OF this] p show ?thesis
    by (simp add: initialPresets_def)
qed

text \<open>
  C10. On a stored text that parses to an array, the activity log is that array, whatever
  its elements are; the preset list is that array only if every element is an object
  with a \<open>title\<close> key and a \<open>prompt\<close> key, and the seed presets otherwise.
\<close>

theorem load_validation_depth:
  assumes "s \<noteq> []" and "parse s = Some (JArray items)"
  shows "load_history parse (GetString s) = items
         \<and> load_presets parse (GetString s) =
             (if \<forall>item \<in> set items. \<exists>kvs. item = JObject kvs
                     \<and> ''title'' \<in> fst ` set kvs \<and> ''prompt'' \<in> fst ` set kvs
              then items else map preset_json initialPresets)"
proof -
  have lh: "load_history parse (GetString s) = items"
    using assms by (simp add: load_history_def history_try_def)
  have lp: "load_presets parse (GetString s) =
              (if list_all (\<lambda>item. isObjectNotNull item \<and> hasKey ''title'' item
                                  \<and> hasKey ''prompt'' item) items
               then items else map preset_json initialPresets)"
    using assms by (simp add: load_presets_def presets_try_def)
  have eq: "list_all (\<lambda>item. isObjectNotNull item \<and> hasKey ''title'' item
                                  \<and> hasKey ''prompt'' item) items
        = (\<forall>item \<in> set items. \<exists>kvs. item = JObject kvs
                     \<and> ''title'' \<in> fst ` set kvs \<and> ''prompt'' \<in> fst ` set kvs)"
    unfolding list_all_iff preset_shape ..
  show ?thesis
    unfolding lh lp eq by (rule conjI) (rule refl)+
qed

theorem load_validation_depth_witness:
  "''[null]'' \<noteq> [] \<and> sample_parse ''[null]'' = Some (JArray [JNull])
   \<and> load_history sample_parse (GetString ''[null]'') = [JNull]
   \<and> load_presets sample_parse (GetString ''[null]'') = map preset_json initialPresets"
proof -
  have a: "''[null]'' \<noteq> []" by simp
  have b: "sample_parse ''[null]'' = Some (JArray [JNull])"
    by (simp add: sample_parse_def)
  from load_validation_depth [of "''[null]''" sample_parse "[JNull]"] a b
  show ?thesis by simp
qed

section \<open>Remote service: analysis\<close>

text \<open>
  C9. The analysis is to fail when the response holds no usable text. The code returns
  \<open>response.text\<close> as it is: an absent text and an empty text are both returned as the
  result, where \<open>editImageWithText\<close> and \<open>generateImageFromText\<close> throw on an empty list.
\<close>

theorem analyze_returns_without_text:
  "generateTextFromImageAndText
     (sample_env\<lparr>generateContent :=
        (\<lambda>i p f. RemoteResponse \<lparr>candidates = None, response_text = None\<rparr>)\<rparr>)
     0 ''What is this?'' sample_file = Inr None
   \<and> generateTextFromImageAndText
     (sample_env\<lparr>generateContent :=
        (\<lambda>i p f. RemoteResponse \<lparr>candidates = Some [], response_text = Some []\<rparr>)\<rparr>)
     0 ''What is this?'' sample_file = Inr (Some [])"
  by (simp add: generateTextFromImageAndText_def)

section \<open>Batch job runner: a run\<close>

lemma collectParts_items:
  "collectParts ps = Some xs \<Longrightarrow> [] \<notin> set xs"
  by (induction ps arbitrary: xs) (auto split: option.splits if_splits)

lemma collectCandidates_items:
  "collectCandidates cs = Some xs \<Longrightarrow> [] \<notin> set xs"
proof (induction cs arbitrary: xs)
  case Nil
  then show ?case by simp
next
  case (Cons c cs)
  then show ?case
    by (auto split: option.splits dest: collectParts_items)
qed

lemma editImageWithText_Inr:
  assumes "editImageWithText e i p f = Inr urls"
  shows "urls \<noteq> [] \<and> [] \<notin> set urls"
  using assms
  by (auto simp: editImageWithText_def editImageWithText_try_def
      split: sum.splits remote_result.splits option.splits if_splits
      dest: collectCandidates_items)

lemma editImageWithText_Inl:
  assumes "editImageWithText e i p f = Inl err"
  shows "err = Error ''Failed to edit the image. Please check your prompt and image and try again.''"
  using assms by (auto simp: editImageWithText_def split: sum.splits)

lemma Map_set_fresh: "k \<notin> fst ` set m \<Longrightarrow> Map_set m k v = m @ [(k, v)]"
  by (induction m) auto

lemma fst_edit_item:
  "fst (edit_item e p t i img acc) = Map_set (fst acc) (image_id img) (result_of e p i img)"
  by (simp add: edit_item_def result_of_def Let_def split: sum.splits)

lemma result_of_ok:
  "entry_ok (editImageWithText e i p (image_file img)) img (result_of e p i img)"
proof (cases "editImageWithText e i p (image_file img)")
  case (Inl err)
  with editImageWithText_Inl [OF Inl] show ?thesis
    by (simp add: entry_ok_def result_of_def edit_item_def Let_def)
next
  case (Inr urls)
  with editImageWithText_Inr [OF Inr] show ?thesis
    by (cases urls) (auto simp: entry_ok_def result_of_def edit_item_def Let_def)
qed

lemma editResults_edit_item:
  "editResults (snd (edit_item e p t i img acc)) = editResults (snd acc)"
  by (simp add: edit_item_def Let_def addToHistory_def split: sum.splits)

lemma remoteCalls_edit_item:
  "\<exists>c. remoteCalls (snd (edit_item e p t i img acc)) = remoteCalls (snd acc) @ [c]
       \<and> call_view c = (image_file img, editResults (snd acc), fst acc)"
  by (simp add: edit_item_def Let_def addToHistory_def call_view_def split: sum.splits)

lemma history_edit_item:
  "\<exists>hs. history (snd (edit_item e p t i img acc)) = hs @ history (snd acc)
        \<and> map hist_view hs = rev (map (edit_record e p) (successes e p i [img]))"
  by (simp add: edit_item_def Let_def addToHistory_def hist_view_def edit_record_def
      split: sum.splits)


lemma map_fst_results_from: "map fst (results_from e p i imgs) = map image_id imgs"
  by (induction imgs arbitrary: i) auto

lemma length_results_from: "length (results_from e p i imgs) = length imgs"
  by (induction imgs arbitrary: i) auto

lemma nth_results_from:
  "k < length imgs \<Longrightarrow>
   results_from e p i imgs ! k = (image_id (imgs ! k), result_of e p (i + k) (imgs ! k))"
proof (induction imgs arbitrary: i k)
  case Nil
  then show ?case by simp
next
  case (Cons img rest)
  then show ?case by (cases k) auto
qed

lemma edit_loop_results:
  assumes "distinct (map image_id imgs)"
    and "set (map image_id imgs) \<inter> fst ` set (fst acc) = {}"
  shows "fst (edit_loop e p t i imgs acc) = fst acc @ results_from e p i imgs"
  using assms
proof (induction imgs arbitrary: i acc)
  case Nil
  then show ?case by simp
next
  case (Cons img rest)
  let ?acc = "edit_item e p t i img acc"
  from Cons.prems have new: "image_id img \<notin> fst ` set (fst acc)"
    by auto
  then have step: "fst ?acc = fst acc @ [(image_id img, result_of e p i img)]"
    by (simp add: fst_edit_item Map_set_fresh)
  have "distinct (map image_id rest)"
    using Cons.prems by simp
  moreover have "set (map image_id rest) \<inter> fst ` set (fst ?acc) = {}"
    using Cons.prems by (auto simp: step)
  ultimately have "fst (edit_loop e p t (Suc i) rest ?acc) = fst ?acc @ results_from e p (Suc i) rest"
    by (rule Cons.IH)
  then show ?case by (simp add: step)
qed

lemma edit_loop_editResults:
  "editResults (snd (edit_loop e p t i imgs acc)) = editResults (snd acc)"
  by (induction imgs arbitrary: i acc) (simp_all add: editResults_edit_item)

lemma edit_loop_history:
  "\<exists>hs. history (snd (edit_loop e p t i imgs acc)) = hs @ history (snd acc)
        \<and> map hist_view hs = rev (map (edit_record e p) (successes e p i imgs))"
proof (induction imgs arbitrary: i acc)
  case Nil
  then show ?case by simp
next
  case (Cons img rest)
  let ?acc = "edit_item e p t i img acc"
  obtain h1 where h1: "history (snd ?acc) = h1 @ history (snd acc)"
      "map hist_view h1 = rev (map (edit_record e p) (successes e p i [img]))"
    using history_edit_item by blast
  obtain h2 where h2: "history (snd (edit_loop e p t (Suc i) rest ?acc)) = h2 @ history (snd ?acc)"
      "map hist_view h2 = rev (map (edit_record e p) (successes e p (Suc i) rest))"
    using Cons.IH by blast
  have "successes e p i (img # rest) = successes e p i [img] @ successes e p (Suc i) rest"
    by (simp split: sum.splits)
  with h1 h2 have "history (snd (edit_loop e p t i (img # rest) acc)) = (h2 @ h1) @ history (snd acc)
      \<and> map hist_view (h2 @ h1) = rev (map (edit_record e p) (successes e p i (img # rest)))"
    by simp
  then show ?case by blast
qed

lemma edit_loop_remoteCalls:
  assumes "distinct (map image_id imgs)"
    and "set (map image_id imgs) \<inter> fst ` set (fst acc) = {}"
  shows "\<exists>cs. remoteCalls (snd (edit_loop e p t i imgs acc)) = remoteCalls (snd acc) @ cs
           \<and> map call_view cs =
               map (\<lambda>k. (image_file (imgs ! k), editResults (snd acc),
                          fst acc @ take k (results_from e p i imgs)))
                 [0..<length imgs]"
  using assms
proof (induction imgs arbitrary: i acc)
  case Nil
  then show ?case by simp
next
  case (Cons img rest)
  let ?acc = "edit_item e p t i img acc"
  from Cons.prems have new: "image_id img \<notin> fst ` set (fst acc)"
    by auto
  then have step: "fst ?acc = fst acc @ [(image_id img, result_of e p i img)]"
    by (simp add: fst_edit_item Map_set_fresh)
  obtain c where c: "remoteCalls (snd ?acc) = remoteCalls (snd acc) @ [c]"
      "call_view c = (image_file img, editResults (snd acc), fst acc)"
    using remoteCalls_edit_item by blast
  have d: "distinct (map image_id rest)"
    using Cons.prems by simp
  have n: "set (map image_id rest) \<inter> fst ` set (fst ?acc) = {}"
    using Cons.prems by (auto simp: step)
  obtain cs where cs: "remoteCalls (snd (edit_loop e p t (Suc i) rest ?acc)) = remoteCalls (snd ?acc) @ cs"
      "map call_view cs =
         map (\<lambda>k. (image_file (rest ! k), editResults (snd ?acc),
                    fst ?acc @ take k (results_from e p (Suc i) rest)))
           [0..<length rest]"
    using Cons.IH [OF d n] by blast
  have "remoteCalls (snd (edit_loop e p t i (img # rest) acc)) = remoteCalls (snd acc) @ (c # cs)"
    using c cs by simp
  moreover have "map call_view (c # cs) =
      map (\<lambda>k. (image_file ((img # rest) ! k), editResults (snd acc),
                 fst acc @ take k (results_from e p i (img # rest))))
        [0..<length (img # rest)]"
    using c(2) cs(2) by (simp add: map_upt_Suc step editResults_edit_item del: upt_Suc)
  ultimately show ?case by blast
qed


lemma distinct_selectedImages:
  "distinct (map image_id (uploadedImages st)) \<Longrightarrow> distinct (map image_id (selectedImages st))"
  by (simp add: selectedImages_def distinct_map_filter)

lemma handleSubmit_run:
  assumes "trim (editPrompt st) \<noteq> []" and "selectedImageIds st \<noteq> {}"
  shows "handleSubmit e st =
           (snd (edit_loop e (trim (editPrompt st)) (length (selectedImages st)) 0
                   (selectedImages st)
                   ([], st\<lparr>loading := True, edit_error := [], editResults := [],
                            progressMessage := ''Preparing to edit...''\<rparr>)))
             \<lparr>editResults :=
                fst (edit_loop e (trim (editPrompt st)) (length (selectedImages st)) 0
                   (selectedImages st)
                   ([], st\<lparr>loading := True, edit_error := [], editResults := [],
                            progressMessage := ''Preparing to edit...''\<rparr>)),
              loading := False, progressMessage := []\<rparr>"
  using assms by (simp add: handleSubmit_def Let_def)

lemma handleSubmit_results:
  assumes "trim (editPrompt st) \<noteq> []" and "selectedImageIds st \<noteq> {}"
    and "distinct (map image_id (uploadedImages st))"
  shows "editResults (handleSubmit e st) = results_from e (trim (editPrompt st)) 0 (selectedImages st)"
proof -
  have "fst (edit_loop e (trim (editPrompt st)) (length (selectedImages st)) 0
                   (selectedImages st)
                   ([], st\<lparr>loading := True, edit_error := [], editResults := [],
                            progressMessage := ''Preparing to edit...''\<rparr>))
        = results_from e (trim (editPrompt st)) 0 (selectedImages st)"
    using edit_loop_results [OF distinct_selectedImages [OF assms(3)], of "([], _)"]
    by simp
  then show ?thesis
    by (simp add: handleSubmit_run [OF assms(1,2)])
qed

lemma handleSubmit_history:
  assumes "trim (editPrompt st) \<noteq> []" and "selectedImageIds st \<noteq> {}"
  shows "\<exists>hs. history (handleSubmit e st) = hs @ history st
          \<and> map hist_view hs =
              rev (map (edit_record e (trim (editPrompt st)))
                     (successes e (trim (editPrompt st)) 0 (selectedImages st)))"
  using edit_loop_history [of e "trim (editPrompt st)" "length (selectedImages st)" 0
      "selectedImages st" "([], st\<lparr>loading := True, edit_error := [], editResults := [],
                            progressMessage := ''Preparing to edit...''\<rparr>)"]
  by (simp add: handleSubmit_run [OF assms])

lemma handleSubmit_remoteCalls:
  assumes "trim (editPrompt st) \<noteq> []" and "selectedImageIds st \<noteq> {}"
    and "distinct (map image_id (uploadedImages st))"
  shows "\<exists>cs. remoteCalls (handleSubmit e st) = remoteCalls st @ cs
          \<and> map call_view cs =
               map (\<lambda>k. (image_file (selectedImages st ! k), [],
                          take k (results_from e (trim (editPrompt st)) 0 (selectedImages st))))
                 [0..<length (selectedImages st)]"
  using edit_loop_remoteCalls [OF distinct_selectedImages [OF assms(3)],
      of "([], st\<lparr>loading := True, edit_error := [], editResults := [],
                            progressMessage := ''Preparing to edit...''\<rparr>)"
         e "trim (editPrompt st)" "length (selectedImages st)" 0]
  by (simp add: handleSubmit_run [OF assms(1,2)])

lemma batch_run_entries:
  assumes "trim (editPrompt st) \<noteq> []" and "selectedImageIds st \<noteq> {}"
    and "distinct (map image_id (uploadedImages st))"
  shows "map fst (editResults (handleSubmit e st)) = map image_id (selectedImages st)
         \<and> length (editResults (handleSubmit e st)) = length (selectedImages st)
         \<and> (\<forall>k < length (selectedImages st).
               entry_ok (editImageWithText e k (trim (editPrompt st))
                           (image_file (selectedImages st ! k)))
                 (selectedImages st ! k) (snd (editResults (handleSubmit e st) ! k)))
         \<and> map hist_view (history (handleSubmit e st)) =
             rev (map (edit_record e (trim (editPrompt st)))
                    (successes e (trim (editPrompt st)) 0 (selectedImages st)))
             @ map hist_view (history st)
         \<and> drop (length (successes e (trim (editPrompt st)) 0 (selectedImages st)))
             (history (handleSubmit e st)) = history st"
proof -
  note res = handleSubmit_results [OF assms, of e]
  have a: "map fst (editResults (handleSubmit e st)) = map image_id (selectedImages st)"
    by (simp add: res map_fst_results_from)
  have b: "length (editResults (handleSubmit e st)) = length (selectedImages st)"
    by (simp add: res length_results_from)
  have c: "\<forall>k < length (selectedImages st).
               entry_ok (editImageWithText e k (trim (editPrompt st))
                           (image_file (selectedImages st ! k)))
                 (selectedImages st ! k) (snd (editResults (handleSubmit e st) ! k))"
    using result_of_ok [of e _ "trim (editPrompt st)"]
    by (simp add: res nth_results_from)
  obtain hs where hs: "history (handleSubmit e st) = hs @ history st"
      "map hist_view hs =
              rev (map (edit_record e (trim (editPrompt st)))
                     (successes e (trim (editPrompt st)) 0 (selectedImages st)))"
    using handleSubmit_history [OF assms(1,2)] by blast
  have "length hs = length (successes e (trim (editPrompt st)) 0 (selectedImages st))"
    using arg_cong [OF hs(2), of length] by simp
  with hs have d: "map hist_view (history (handleSubmit e st)) =
             rev (map (edit_record e (trim (editPrompt st)))
                    (successes e (trim (editPrompt st)) 0 (selectedImages st)))
             @ map hist_view (history st)"
    and f: "drop (length (successes e (trim (editPrompt st)) 0 (selectedImages st)))
             (history (handleSubmit e st)) = history st"
    by simp_all
  from a b c d f show ?thesis by (intro conjI)
qed

text \<open>
  C1. A run with an instruction that is not empty, over a registry of distinct ids, is
  never cut short by a failing item. The results hold one entry per selected item and no
  other: their keys are the registered ids that are in the selection, in the order of the
  registry, each once. The entry of an item whose remote edit fails has no outputs and a
  failure text that is not empty; the entry of an item whose edit succeeds has the outputs
  returned, not empty, the first of them active, and no failure. The activity log gains
  one record per successful item and none for the others, each put in front as its item
  completes.
\<close>

theorem batch_run_partial_failure:
  assumes "trim (editPrompt st) \<noteq> []" and "selectedImageIds st \<noteq> {}"
    and "distinct (map image_id (uploadedImages st))"
  shows "map fst (editResults (handleSubmit e st))
           = filter (\<lambda>i. i \<in> selectedImageIds st) (map image_id (uploadedImages st))
         \<and> distinct (map fst (editResults (handleSubmit e st)))
         \<and> set (map fst (editResults (handleSubmit e st)))
             = selectedImageIds st \<inter> registered_ids st
         \<and> length (editResults (handleSubmit e st)) = length (filter (\<lambda>img. image_id img \<in> selectedImageIds st) (uploadedImages st))
         \<and> (\<forall>k < length (filter (\<lambda>img. image_id img \<in> selectedImageIds st) (uploadedImages st)).
               entry_ok (editImageWithText e k (trim (editPrompt st))
                           (image_file (filter (\<lambda>img. image_id img \<in> selectedImageIds st) (uploadedImages st) ! k)))
                 (filter (\<lambda>img. image_id img \<in> selectedImageIds st) (uploadedImages st) ! k)
                 (snd (editResults (handleSubmit e st) ! k)))
         \<and> map hist_view (history (handleSubmit e st)) =
             rev (map (edit_record e (trim (editPrompt st)))
                    (successes e (trim (editPrompt st)) 0 (filter (\<lambda>img. image_id img \<in> selectedImageIds st) (uploadedImages st))))
             @ map hist_view (history st)
         \<and> drop (length (successes e (trim (editPrompt st)) 0 (filter (\<lambda>img. image_id img \<in> selectedImageIds st) (uploadedImages st))))
             (history (handleSubmit e st)) = history st"
proof -
  note run = batch_run_entries [OF assms, of e, unfolded selectedImages_def]
  from run have keys: "map fst (editResults (handleSubmit e st)) = map image_id (filter (\<lambda>img. image_id img \<in> selectedImageIds st) (uploadedImages st))"
    by (rule conjunct1)
  have a: "map fst (editResults (handleSubmit e st))
           = filter (\<lambda>i. i \<in> selectedImageIds st) (map image_id (uploadedImages st))"
    unfolding keys by (simp add: filter_map comp_def)
  have b: "distinct (map fst (editResults (handleSubmit e st)))"
    unfolding a using assms(3) by (rule distinct_filter)
  have c: "set (map fst (editResults (handleSubmit e st)))
             = selectedImageIds st \<inter> registered_ids st"
    unfolding a by (auto simp: registered_ids_def)
  from a b c run show ?thesis by blast
qed

text \<open>
  C8, amended. The published results are emptied when the run starts and stay empty
  while it runs: every request leaves with the published collection empty and the local
  collection holding the entries of exactly the items before it. The published collection
  receives all entries at once, after the last item.
\<close>

theorem batch_run_publication:
  assumes "trim (editPrompt st) \<noteq> []" and "selectedImageIds st \<noteq> {}"
    and "distinct (map image_id (uploadedImages st))"
  shows "take (length (remoteCalls st)) (remoteCalls (handleSubmit e st)) = remoteCalls st
         \<and> length (remoteCalls (handleSubmit e st))
             = length (remoteCalls st) + length (selectedImages st)
         \<and> (\<forall>k < length (selectedImages st).
               call_file (remoteCalls (handleSubmit e st) ! (length (remoteCalls st) + k))
                 = image_file (selectedImages st ! k)
               \<and> call_published (remoteCalls (handleSubmit e st) ! (length (remoteCalls st) + k))
                 = []
               \<and> call_local (remoteCalls (handleSubmit e st) ! (length (remoteCalls st) + k))
                 = take k (editResults (handleSubmit e st)))
         \<and> map fst (editResults (handleSubmit e st)) = map image_id (selectedImages st)"
proof -
  note res = handleSubmit_results [OF assms, of e]
  obtain cs where cs: "remoteCalls (handleSubmit e st) = remoteCalls st @ cs"
      "map call_view cs =
               map (\<lambda>k. (image_file (selectedImages st ! k), [],
                          take k (results_from e (trim (editPrompt st)) 0 (selectedImages st))))
                 [0..<length (selectedImages st)]"
    using handleSubmit_remoteCalls [OF assms] by blast
  have len: "length cs = length (selectedImages st)"
    using arg_cong [OF cs(2), of length] by simp
  have each: "call_view (cs ! k) = (image_file (selectedImages st ! k), [],
                          take k (editResults (handleSubmit e st)))"
    if "k < length (selectedImages st)" for k
  proof -
    from that len have "call_view (cs ! k) = map call_view cs ! k"
      by simp
    also have "\<dots> = (image_file (selectedImages st ! k), [],
                          take k (editResults (handleSubmit e st)))"
      using that unfolding cs(2) res by simp
    finally show ?thesis .
  qed
  have a: "take (length (remoteCalls st)) (remoteCalls (handleSubmit e st)) = remoteCalls st"
    unfolding cs(1) by simp
  have b: "length (remoteCalls (handleSubmit e st))
             = length (remoteCalls st) + length (selectedImages st)"
    unfolding cs(1) by (simp add: len)
  have c: "\<forall>k < length (selectedImages st).
               call_file (remoteCalls (handleSubmit e st) ! (length (remoteCalls st) + k))
                 = image_file (selectedImages st ! k)
               \<and> call_published (remoteCalls (handleSubmit e st) ! (length (remoteCalls st) + k))
                 = []
               \<and> call_local (remoteCalls (handleSubmit e st) ! (length (remoteCalls st) + k))
                 = take k (editResults (handleSubmit e st))"
  proof (intro allI impI)
    fix k assume k: "k < length (selectedImages st)"
    have "remoteCalls (handleSubmit e st) ! (length (remoteCalls st) + k) = cs ! k"
      unfolding cs(1) by simp
    with each [OF k] show "call_file (remoteCalls (handleSubmit e st) ! (length (remoteCalls st) + k))
                 = image_file (selectedImages st ! k)
               \<and> call_published (remoteCalls (handleSubmit e st) ! (length (remoteCalls st) + k))
                 = []
               \<and> call_local (remoteCalls (handleSubmit e st) ! (length (remoteCalls st) + k))
                 = take k (editResults (handleSubmit e st))"
      by (simp add: call_view_def)
  qed
  have d: "map fst (editResults (handleSubmit e st)) = map image_id (selectedImages st)"
    unfolding res by (simp add: map_fst_results_from)
  from a b c d show ?thesis by (intro conjI)
qed


lemma sample_selected:
  "selectedImages sample_studio =
     [\<lparr>image_id = ''id'', image_file = sample_file, image_url = ''blob:a.png''\<rparr>,
      \<lparr>image_id = ''id+'', image_file = sample_file\<lparr>file_name := ''bad.png''\<rparr>,
       image_url = ''blob:bad.png''\<rparr>,
      \<lparr>image_id = ''id++'',
       image_file = sample_file\<lparr>file_name := ''c.png'', file_data := ''REVG''\<rparr>,
       image_url = ''blob:c.png''\<rparr>]"
  by (simp add: selectedImages_def sample_studio_def initial_studio_def)

lemma sample_prompt: "trim (editPrompt sample_studio) = ''go''"
  by (simp add: sample_studio_def initial_studio_def trim_def isWhiteSpace_def)

lemma sample_outcomes:
  "editImageWithText sample_env i ''go'' sample_file = Inr [''data:image/png;base64,AAAA'']"
  "editImageWithText sample_env i ''go'' (sample_file\<lparr>file_name := ''bad.png''\<rparr>)
     = Inl (Error ''Failed to edit the image. Please check your prompt and image and try again.'')"
  "editImageWithText sample_env i ''go'' (sample_file\<lparr>file_name := ''c.png'', file_data := ''REVG''\<rparr>)
     = Inr [''data:image/png;base64,AAAA'']"
  by (simp_all add: editImageWithText_def editImageWithText_try_def sample_env_def
      image_response_def sample_file_def startsWith_def)

lemma sample_read:
  "fileToDataUrl sample_env i f = Some (''data:'' @ file_type f @ '';base64,'' @ file_data f)"
  by (simp add: fileToDataUrl_def sample_env_def)

theorem batch_run_partial_failure_witness:
  "trim (editPrompt sample_studio) \<noteq> [] \<and> selectedImageIds sample_studio \<noteq> {}
   \<and> distinct (map image_id (uploadedImages sample_studio))
   \<and> map image_id (uploadedImages sample_studio) = [''id'', ''id+'', ''id++'', ''id+++'']
   \<and> map fst (editResults (handleSubmit sample_env sample_studio)) = [''id'', ''id+'', ''id++'']
   \<and> editedUrls (snd (editResults (handleSubmit sample_env sample_studio) ! 0))
       = [''data:image/png;base64,AAAA'']
   \<and> selectedEditedUrl (snd (editResults (handleSubmit sample_env sample_studio) ! 0))
       = Some ''data:image/png;base64,AAAA''
   \<and> result_error (snd (editResults (handleSubmit sample_env sample_studio) ! 0)) = None
   \<and> editedUrls (snd (editResults (handleSubmit sample_env sample_studio) ! 1)) = []
   \<and> result_error (snd (editResults (handleSubmit sample_env sample_studio) ! 1)) \<noteq> None
   \<and> map hist_view (history (handleSubmit sample_env sample_studio)) =
       [(Edit, ''go'', Some [Some ''data:image/png;base64,REVG''],
           Some [''data:image/png;base64,AAAA''], None),
        (Edit, ''go'', Some [Some ''data:image/png;base64,QUJD''],
           Some [''data:image/png;base64,AAAA''], None)]"
proof -
  have h1: "trim (editPrompt sample_studio) \<noteq> []"
    by (simp add: sample_prompt)
  have h2: "selectedImageIds sample_studio \<noteq> {}"
    by (simp add: sample_studio_def initial_studio_def)
  have h3: "distinct (map image_id (uploadedImages sample_studio))"
    by (simp add: sample_studio_def initial_studio_def)
  have reg: "map image_id (uploadedImages sample_studio) = [''id'', ''id+'', ''id++'', ''id+++'']"
    by (simp add: sample_studio_def initial_studio_def)
  have chosen: "filter (\<lambda>i. i \<in> selectedImageIds sample_studio)
                  (map image_id (uploadedImages sample_studio)) = [''id'', ''id+'', ''id++'']"
    by (simp add: sample_studio_def initial_studio_def)
  note sel = sample_selected [unfolded selectedImages_def]
  note run = batch_run_partial_failure [OF h1 h2 h3, of sample_env]
  have ids: "map fst (editResults (handleSubmit sample_env sample_studio)) = [''id'', ''id+'', ''id++'']"
    using run chosen by simp
  from run have each: "\<forall>k < length (filter (\<lambda>img. image_id img \<in> selectedImageIds sample_studio) (uploadedImages sample_studio)).
       entry_ok (editImageWithText sample_env k (trim (editPrompt sample_studio))
                   (image_file (filter (\<lambda>img. image_id img \<in> selectedImageIds sample_studio) (uploadedImages sample_studio) ! k)))
         (filter (\<lambda>img. image_id img \<in> selectedImageIds sample_studio) (uploadedImages sample_studio) ! k)
         (snd (editResults (handleSubmit sample_env sample_studio) ! k))"
    by blast
  have e0: "editedUrls (snd (editResults (handleSubmit sample_env sample_studio) ! 0))
       = [''data:image/png;base64,AAAA'']
     \<and> selectedEditedUrl (snd (editResults (handleSubmit sample_env sample_studio) ! 0))
       = Some ''data:image/png;base64,AAAA''
     \<and> result_error (snd (editResults (handleSubmit sample_env sample_studio) ! 0)) = None"
    using each [rule_format, of 0]
    by (simp add: sel sample_prompt sample_outcomes entry_ok_def)
  have e1: "editedUrls (snd (editResults (handleSubmit sample_env sample_studio) ! 1)) = []
     \<and> result_error (snd (editResults (handleSubmit sample_env sample_studio) ! 1)) \<noteq> None"
    using each [rule_format, of 1]
    by (auto simp: sel sample_prompt sample_outcomes entry_ok_def)
  have succ: "successes sample_env ''go'' 0 (filter (\<lambda>img. image_id img \<in> selectedImageIds sample_studio) (uploadedImages sample_studio)) =
       [(0, \<lparr>image_id = ''id'', image_file = sample_file, image_url = ''blob:a.png''\<rparr>,
         [''data:image/png;base64,AAAA'']),
        (2, \<lparr>image_id = ''id++'',
          image_file = sample_file\<lparr>file_name := ''c.png'', file_data := ''REVG''\<rparr>,
          image_url = ''blob:c.png''\<rparr>,
         [''data:image/png;base64,AAAA''])]"
    by (simp add: sel sample_outcomes)
  have "history sample_studio = []"
    by (simp add: sample_studio_def initial_studio_def)
  with run have "map hist_view (history (handleSubmit sample_env sample_studio)) =
       rev (map (edit_record sample_env ''go'') (successes sample_env ''go'' 0 (filter (\<lambda>img. image_id img \<in> selectedImageIds sample_studio) (uploadedImages sample_studio))))"
    by (simp add: sample_prompt)
  then have log: "map hist_view (history (handleSubmit sample_env sample_studio)) =
       [(Edit, ''go'', Some [Some ''data:image/png;base64,REVG''],
           Some [''data:image/png;base64,AAAA''], None),
        (Edit, ''go'', Some [Some ''data:image/png;base64,QUJD''],
           Some [''data:image/png;base64,AAAA''], None)]"
    by (simp add: succ edit_record_def sample_read sample_file_def)
  from h1 h2 h3 reg ids e0 e1 log show ?thesis by simp
qed

theorem batch_run_publication_witness:
  "trim (editPrompt sample_studio) \<noteq> [] \<and> selectedImageIds sample_studio \<noteq> {}
   \<and> distinct (map image_id (uploadedImages sample_studio))
   \<and> editResults sample_studio \<noteq> []
   \<and> length (remoteCalls (handleSubmit sample_env sample_studio)) = 3
   \<and> call_published (remoteCalls (handleSubmit sample_env sample_studio) ! 0) = []
   \<and> call_published (remoteCalls (handleSubmit sample_env sample_studio) ! 1) = []
   \<and> call_local (remoteCalls (handleSubmit sample_env sample_studio) ! 1)
       = take 1 (editResults (handleSubmit sample_env sample_studio))
   \<and> map fst (editResults (handleSubmit sample_env sample_studio)) = [''id'', ''id+'', ''id++'']"
proof -
  have h1: "trim (editPrompt sample_studio) \<noteq> []"
    by (simp add: sample_prompt)
  have h2: "selectedImageIds sample_studio \<noteq> {}"
    by (simp add: sample_studio_def initial_studio_def)
  have h3: "distinct (map image_id (uploadedImages sample_studio))"
    by (simp add: sample_studio_def initial_studio_def)
  have old: "editResults sample_studio \<noteq> []" and none: "remoteCalls sample_studio = []"
    by (simp_all add: sample_studio_def initial_studio_def)
  note run = batch_run_publication [OF h1 h2 h3, of sample_env]
  from run have each: "\<forall>k < length (selectedImages sample_studio).
       call_file (remoteCalls (handleSubmit sample_env sample_studio)
                    ! (length (remoteCalls sample_studio) + k))
         = image_file (selectedImages sample_studio ! k)
       \<and> call_published (remoteCalls (handleSubmit sample_env sample_studio)
                    ! (length (remoteCalls sample_studio) + k)) = []
       \<and> call_local (remoteCalls (handleSubmit sample_env sample_studio)
                    ! (length (remoteCalls sample_studio) + k))
         = take k (editResults (handleSubmit sample_env sample_studio))"
    by blast
  have len: "length (remoteCalls (handleSubmit sample_env sample_studio)) = 3"
    using run by (simp add: sample_selected none)
  have ids: "map fst (editResults (handleSubmit sample_env sample_studio)) = [''id'', ''id+'', ''id++'']"
    using run by (simp add: sample_selected)
  from each [rule_format, of 0] each [rule_format, of 1] h1 h2 h3 old len ids
  show ?thesis by (simp add: sample_selected none)
qed

text \<open>
  C8, as stated: before the request of the second item leaves, the published results
  hold the entry of the first. They are empty then; the entry is in the local collection.
\<close>

theorem publication_counterexample:
  "call_published (remoteCalls (handleSubmit sample_env sample_studio) ! 1) = []
   \<and> map fst (call_local (remoteCalls (handleSubmit sample_env sample_studio) ! 1)) = [''id'']"
  by code_simp

end
